theory Spec2Isabelle
  imports Complex_Main
begin

section \<open>Numbers\<close>

text \<open>
  The program computes with JavaScript numbers. Finite numbers are modelled as reals
  (rounding is not modelled); the one non-finite value the pitch resolver can produce,
  \<open>NaN\<close> (from adding \<open>undefined\<close> to a number), is a constructor of its own.
\<close>

datatype number = Num real | NaN

text \<open>JavaScript's \<open><\<close> and \<open>===\<close> on numbers: every comparison with \<open>NaN\<close> is false.\<close>

fun num_less :: "number \<Rightarrow> number \<Rightarrow> bool" where
  "num_less (Num a) (Num b) = (a < b)"
| "num_less _ _ = False"

fun num_eq :: "number \<Rightarrow> number \<Rightarrow> bool" where
  "num_eq (Num a) (Num b) = (a = b)"
| "num_eq _ _ = False"

fun num_times :: "real \<Rightarrow> number \<Rightarrow> number" where
  "num_times k (Num a) = Num (k * a)"
| "num_times k NaN = NaN"

section \<open>Pitch resolver: \<open>AudioEngine.getFrequency\<close>\<close>

definition is_letter :: "char \<Rightarrow> bool" where
  "is_letter c = (c \<in> set ''ABCDEFG'')"

definition is_accidental :: "char \<Rightarrow> bool" where
  "is_accidental c = (c = CHR ''#'' \<or> c = CHR ''b'')"

definition is_digit :: "char \<Rightarrow> bool" where
  "is_digit c = (c \<in> set ''0123456789'')"

text \<open>
  The regular expression \<open>/([A-G][#b]?)([0-9])/\<close> tried at the head of a string: the
  optional accidental is greedy, and is given up when no digit follows it. The result
  is the pair of capture groups.
\<close>

fun match_here :: "string \<Rightarrow> (string \<times> char) option" where
  "match_here (c # a # d # rest) =
     (if is_letter c \<and> is_accidental a \<and> is_digit d then Some ([c, a], d)
      else if is_letter c \<and> is_digit a then Some ([c], a)
      else None)"
| "match_here [c, d] = (if is_letter c \<and> is_digit d then Some ([c], d) else None)"
| "match_here _ = None"

text \<open>\<open>pitch.match(re)\<close> without the global flag: the leftmost position that matches.\<close>

fun pitch_match :: "string \<Rightarrow> (string \<times> char) option" where
  "pitch_match [] = None"
| "pitch_match (c # cs) =
     (case match_here (c # cs) of Some m \<Rightarrow> Some m | None \<Rightarrow> pitch_match cs)"

definition notes_tbl :: "string \<rightharpoonup> int" where
  "notes_tbl = map_of
     [(''C'', 0), (''C#'', 1), (''Db'', 1), (''D'', 2), (''D#'', 3), (''Eb'', 3),
      (''E'', 4), (''F'', 5), (''F#'', 6), (''Gb'', 6), (''G'', 7), (''G#'', 8),
      (''Ab'', 8), (''A'', 9), (''A#'', 10), (''Bb'', 10), (''B'', 11)]"

text \<open>\<open>parseInt\<close> of a one-digit string. (The table above is \<open>notes\<close> in the source.)\<close>

definition parseInt_digit :: "char \<Rightarrow> int" where
  "parseInt_digit d = int (of_char d) - 48"

text \<open>
  \<open>notes[note]\<close> is \<open>undefined\<close> for a name that is not a key of the table; then
  \<open>semitones\<close> and the returned product are \<open>NaN\<close>.
\<close>

definition getFrequency :: "string \<Rightarrow> number" where
  "getFrequency pitch =
     (case pitch_match pitch of
        None \<Rightarrow> Num 440
      | Some (note, d) \<Rightarrow>
          (case notes_tbl note of
             None \<Rightarrow> NaN
           | Some n \<Rightarrow>
               (let octave = parseInt_digit d;
                    semitones = n + (octave - 4) * 12
                in Num (440 * 2 powr (real_of_int semitones / 12)))))"

text \<open>
  The pitch syntax of the data model, stated on its own: a token is a letter A to G, an
  optional accidental and one digit; a string contains a pitch when some substring of
  it is a token.
\<close>

definition pitch_token :: "string \<Rightarrow> bool" where
  "pitch_token w =
     ((\<exists>l d. w = [l, d] \<and> is_letter l \<and> is_digit d) \<or>
      (\<exists>l a d. w = [l, a, d] \<and> is_letter l \<and> is_accidental a \<and> is_digit d))"

definition contains_pitch :: "string \<Rightarrow> bool" where
  "contains_pitch s = (\<exists>pre w post. s = pre @ w @ post \<and> pitch_token w)"

section \<open>Score data (\<open>types.ts\<close>) and the synthesizers\<close>

datatype InstrumentType = PIANO | GUITAR | BASS | DRUMS | MALE_VOCAL | FEMALE_VOCAL

datatype drum = Kick | Snare | Hihat

text \<open>
  The sounds handed to the audio graph, in the order they are scheduled: a tone
  (\<open>osc.start\<close> reached in \<open>playNote\<close>), a drum hit (\<open>start\<close> reached in \<open>playDrum\<close>)
  and a call of the asynchronous \<open>playVocalBuffer\<close>, each with its arguments.
\<close>

datatype call =
    PlayNote string real InstrumentType real
  | PlayDrum drum real
  | PlayVocalBuffer string real

datatype error = TypeError | RangeError | InvalidCharacterError

text \<open>
  \<open>AudioEngine.playNote\<close>. The frequency goes to \<open>osc.frequency.setValueAtTime\<close>, whose
  value parameter is a restricted float of the platform: for \<open>NaN\<close> the call throws a
  TypeError. A negative time throws a RangeError, in \<open>setValueAtTime\<close> for the start or
  in \<open>exponentialRampToValueAtTime\<close> for the end \<open>startTime + duration\<close>. All of this
  comes before \<open>osc.start\<close>, so a call that throws schedules no tone.
\<close>

definition playNote :: "string \<Rightarrow> real \<Rightarrow> InstrumentType \<Rightarrow> real \<Rightarrow> error + call" where
  "playNote pitch duration instrument startTime =
     (case getFrequency pitch of
        NaN \<Rightarrow> Inl TypeError
      | Num freq \<Rightarrow>
          if startTime < 0 \<or> startTime + duration < 0 then Inl RangeError
          else Inr (PlayNote pitch duration instrument startTime))"

text \<open>
  \<open>AudioEngine.playDrum\<close>: every branch begins with a \<open>setValueAtTime\<close> at \<open>startTime\<close>,
  which throws a RangeError for a negative time, before the source is started.
\<close>

definition playDrum :: "drum \<Rightarrow> real \<Rightarrow> error + call" where
  "playDrum type startTime =
     (if startTime < 0 then Inl RangeError else Inr (PlayDrum type startTime))"

record Note =
  pitch :: string
  duration :: real
  lyrics :: "string option"

record Measure =
  chords :: "string list"
  melody :: "Note list"
  drumGroove :: "string option"

text \<open>The score's own \<open>tempo\<close> field is named \<open>scoreTempo\<close>; \<open>tempo\<close> is the playback state.\<close>

record ScoreData =
  title :: string
  scoreTempo :: real
  timeSignature :: string
  keySignature :: string
  measures :: "Measure list"

section \<open>Measure arranger: \<open>playMeasure\<close>\<close>

text \<open>
  A stretch of code that calls the engine leaves the sounds it has scheduled and, when
  one of its calls threw, the exception, after which nothing more of it runs.
  \<open>and_then r k\<close> is one call with result \<open>r\<close> followed by the rest \<open>k\<close>; \<open>seq a k\<close> is
  a stretch \<open>a\<close> followed by a stretch \<open>k\<close>.
\<close>

type_synonym outcome = "call list \<times> error option"

definition and_then :: "error + call \<Rightarrow> outcome \<Rightarrow> outcome" where
  "and_then r k = (case r of Inl e \<Rightarrow> ([], Some e) | Inr c \<Rightarrow> (c # fst k, snd k))"

definition seq :: "outcome \<Rightarrow> outcome \<Rightarrow> outcome" where
  "seq a k = (case snd a of Some e \<Rightarrow> a | None \<Rightarrow> (fst a @ fst k, snd k))"

text \<open>
  \<open>measure.melody.forEach\<close> with the running \<open>offset\<close>: each note is played at
  \<open>startTime + offset\<close> for \<open>note.duration * beatDuration\<close>, then the offset advances.
  A note whose \<open>playNote\<close> throws ends the loop: the notes after it are not played.
\<close>

fun melody_loop :: "InstrumentType \<Rightarrow> real \<Rightarrow> real \<Rightarrow> real \<Rightarrow> Note list \<Rightarrow> outcome" where
  "melody_loop inst beatDuration startTime offset [] = ([], None)"
| "melody_loop inst beatDuration startTime offset (note # rest) =
     and_then (playNote (pitch note) (duration note * beatDuration) inst (startTime + offset))
       (melody_loop inst beatDuration startTime (offset + duration note * beatDuration) rest)"

text \<open>\<open>chord.charAt(0)\<close>: the first character, or the empty string.\<close>

definition charAt0 :: "string \<Rightarrow> string" where
  "charAt0 s = take 1 s"

text \<open>\<open>measure.chords.forEach((chord, i) => ...)\<close>.\<close>

fun bass_loop :: "real \<Rightarrow> real \<Rightarrow> nat \<Rightarrow> string list \<Rightarrow> outcome" where
  "bass_loop chordDuration startTime i [] = ([], None)"
| "bass_loop chordDuration startTime i (chord # rest) =
     and_then (playNote (charAt0 chord @ ''2'') chordDuration BASS
                 (startTime + (real i * chordDuration)))
       (bass_loop chordDuration startTime (Suc i) rest)"

text \<open>One pass of the drum loop's body, and the loop \<open>for (i = 0; i < 4; i++)\<close>.\<close>

definition drum_iter :: "real \<Rightarrow> real \<Rightarrow> nat \<Rightarrow> outcome" where
  "drum_iter beatDuration startTime i =
     and_then (playDrum Hihat (startTime + (real i * beatDuration)))
       (and_then (playDrum Hihat (startTime + (real i * beatDuration) + (0.5 * beatDuration)))
          (seq (if i = 0 \<or> i = 2
                then and_then (playDrum Kick (startTime + (real i * beatDuration))) ([], None)
                else ([], None))
               (if i = 1 \<or> i = 3
                then and_then (playDrum Snare (startTime + (real i * beatDuration))) ([], None)
                else ([], None))))"

definition drum_loop :: "real \<Rightarrow> real \<Rightarrow> outcome" where
  "drum_loop beatDuration startTime =
     seq (drum_iter beatDuration startTime 0)
       (seq (drum_iter beatDuration startTime 1)
          (seq (drum_iter beatDuration startTime 2)
             (drum_iter beatDuration startTime 3)))"

definition melody_part :: "InstrumentType set \<Rightarrow> real \<Rightarrow> real \<Rightarrow> Measure \<Rightarrow> outcome" where
  "melody_part sel beatDuration startTime msr =
     (if PIANO \<in> sel \<or> GUITAR \<in> sel
      then melody_loop (if PIANO \<in> sel then PIANO else GUITAR) beatDuration startTime 0
             (melody msr)
      else ([], None))"

definition bass_part :: "InstrumentType set \<Rightarrow> real \<Rightarrow> real \<Rightarrow> Measure \<Rightarrow> outcome" where
  "bass_part sel beatDuration startTime msr =
     (if BASS \<in> sel \<and> length (chords msr) > 0
      then bass_loop ((4 * beatDuration) / real (length (chords msr))) startTime 0
             (chords msr)
      else ([], None))"

definition drums_part :: "InstrumentType set \<Rightarrow> real \<Rightarrow> real \<Rightarrow> outcome" where
  "drums_part sel beatDuration startTime =
     (if DRUMS \<in> sel then drum_loop beatDuration startTime else ([], None))"

text \<open>
  \<open>vocalAudioMap[index]\<close> is truthy when the key is present with a non-empty string.
  The method is asynchronous: what goes wrong in it rejects its promise and is not
  thrown into \<open>playMeasure\<close>.
\<close>

definition vocal_part :: "InstrumentType set \<Rightarrow> (nat \<rightharpoonup> string) \<Rightarrow> nat \<Rightarrow> real \<Rightarrow> outcome" where
  "vocal_part sel vocalAudioMap index startTime =
     (case vocalAudioMap index of
        None \<Rightarrow> ([], None)
      | Some payload \<Rightarrow>
          (if payload \<noteq> [] \<and> (MALE_VOCAL \<in> sel \<or> FEMALE_VOCAL \<in> sel)
           then ([PlayVocalBuffer payload startTime], None) else ([], None)))"

text \<open>
  \<open>playMeasure(index, startTime)\<close> with the values its closure holds: the melody, the
  bass, the drums and the vocal clip in this order, up to the first exception. When
  \<open>index\<close> is past the last measure, \<open>measure\<close> is \<open>undefined\<close>: reading
  \<open>measure.melody\<close> or \<open>measure.chords\<close> throws a TypeError before any call is made,
  and the drum and vocal branches, which do not read the measure, run as usual. The
  quotient \<open>60 / tempo\<close> is the real one, so the model follows the code for
  \<open>tempo \<noteq> 0\<close>.
\<close>

definition playMeasure ::
  "ScoreData option \<Rightarrow> real \<Rightarrow> InstrumentType set \<Rightarrow> (nat \<rightharpoonup> string) \<Rightarrow> nat \<Rightarrow> real
   \<Rightarrow> outcome" where
  "playMeasure score tempo sel vocalAudioMap index startTime =
     (case score of
        None \<Rightarrow> ([], None)
      | Some sc \<Rightarrow>
          (let beatDuration = 60 / tempo in
           if index < length (measures sc) then
             (let msr = measures sc ! index in
              seq (melody_part sel beatDuration startTime msr)
                (seq (bass_part sel beatDuration startTime msr)
                   (seq (drums_part sel beatDuration startTime)
                      (vocal_part sel vocalAudioMap index startTime))))
           else if PIANO \<in> sel \<or> GUITAR \<in> sel \<or> BASS \<in> sel then ([], Some TypeError)
           else seq (drums_part sel beatDuration startTime)
                  (vocal_part sel vocalAudioMap index startTime)))"

text \<open>Selectors on recorded calls, used to state what each track emits.\<close>

fun is_melodic :: "call \<Rightarrow> bool" where
  "is_melodic (PlayNote p d inst t) = (inst = PIANO \<or> inst = GUITAR)"
| "is_melodic _ = False"

fun is_bass :: "call \<Rightarrow> bool" where
  "is_bass (PlayNote p d inst t) = (inst = BASS)"
| "is_bass _ = False"

fun is_drum :: "drum \<Rightarrow> call \<Rightarrow> bool" where
  "is_drum v (PlayDrum w t) = (v = w)"
| "is_drum v _ = False"

fun note_duration :: "call \<Rightarrow> real" where
  "note_duration (PlayNote p d inst t) = d"
| "note_duration _ = 0"

fun start_of :: "call \<Rightarrow> real" where
  "start_of (PlayNote p d inst t) = t"
| "start_of (PlayDrum w t) = t"
| "start_of (PlayVocalBuffer b t) = t"

section \<open>Performance scheduler: the playback effect of \<open>App\<close>\<close>

text \<open>
  A pending \<open>setTimeout\<close>: its delay in milliseconds and the two values its callback
  closes over, \<open>measureDuration\<close> and \<open>score.measures.length\<close>.
\<close>

datatype timer = Timer real real nat

text \<open>
  The component's state and refs that the playback effect reads or writes, with the
  calls made on the audio engine so far. \<open>playbackTimer\<close> is \<open>None\<close> when no timeout is
  pending (never set, fired or cleared).
\<close>

record app_state =
  score :: "ScoreData option"
  isPlaying :: bool
  tempo :: real
  selectedInstruments :: "InstrumentType set"
  currentMeasureIndex :: nat
  vocalAudioMap :: "nat \<rightharpoonup> string"
  playbackTimer :: "timer option"
  measureStartTime :: real
  calls :: "call list"

text \<open>The effect's cleanup: \<open>clearTimeout(playbackTimerRef.current)\<close>.\<close>

definition cleanup :: "app_state \<Rightarrow> app_state" where
  "cleanup st = st\<lparr>playbackTimer := None\<rparr>"

text \<open>
  The effect's body; \<open>now\<close> is \<open>audioEngine.context.currentTime\<close> when it runs. An
  exception thrown in \<open>playMeasure\<close> leaves the effect before the timeout is set.
\<close>

definition scheduleNext :: "real \<Rightarrow> app_state \<Rightarrow> error + app_state" where
  "scheduleNext now st =
     (case score st of
        None \<Rightarrow> Inr (st\<lparr>playbackTimer := None\<rparr>)
      | Some sc \<Rightarrow>
          if isPlaying st then
            (let beatDuration = 60 / tempo st;
                 measureDuration = 4 * beatDuration;
                 anchor = (if measureStartTime st = 0 then now + 0.1 else measureStartTime st)
             in case playMeasure (score st) (tempo st) (selectedInstruments st)
                       (vocalAudioMap st) (currentMeasureIndex st) anchor of
                  (cs, Some e) \<Rightarrow> Inl e
                | (cs, None) \<Rightarrow>
                    Inr (st\<lparr>measureStartTime := anchor,
                            calls := calls st @ cs,
                            playbackTimer :=
                              Some (Timer (measureDuration * 1000) measureDuration
                                      (length (measures sc)))\<rparr>))
          else Inr (st\<lparr>playbackTimer := None\<rparr>))"

text \<open>
  A render in which one of the effect's dependencies
  \<open>[isPlaying, currentMeasureIndex, score, tempo, playMeasure]\<close> has changed: the
  previous effect is cleaned up, then the effect runs again.
\<close>

definition rerun_effect :: "real \<Rightarrow> app_state \<Rightarrow> error + app_state" where
  "rerun_effect now st = scheduleNext now (cleanup st)"

text \<open>\<open>setTempo(t)\<close>: a state update to the value already held does not render again.\<close>

definition setTempo :: "real \<Rightarrow> real \<Rightarrow> app_state \<Rightarrow> error + app_state" where
  "setTempo now t st = (if t = tempo st then Inr st else rerun_effect now (st\<lparr>tempo := t\<rparr>))"

text \<open>\<open>handlePlayToggle\<close>.\<close>

definition handlePlayToggle :: "real \<Rightarrow> app_state \<Rightarrow> error + app_state" where
  "handlePlayToggle now st =
     (let st1 = (if \<not> isPlaying st then st\<lparr>measureStartTime := 0\<rparr> else st)
      in rerun_effect now (st1\<lparr>isPlaying := \<not> isPlaying st\<rparr>))"

text \<open>
  The timeout's callback: the anchor advances by the captured \<open>measureDuration\<close>, the
  index moves on or playback stops, and the render that follows runs the effect again
  when \<open>isPlaying\<close> or \<open>currentMeasureIndex\<close> has changed.
\<close>

definition timerFire :: "real \<Rightarrow> app_state \<Rightarrow> error + app_state" where
  "timerFire now st =
     (case playbackTimer st of
        None \<Rightarrow> Inr st
      | Some (Timer ms measureDuration measureCount) \<Rightarrow>
          (let st1 = st\<lparr>measureStartTime := measureStartTime st + measureDuration,
                        playbackTimer := None\<rparr>;
               next = currentMeasureIndex st1 + 1;
               st2 = (if next \<ge> measureCount
                      then st1\<lparr>isPlaying := False, currentMeasureIndex := 0\<rparr>
                      else st1\<lparr>currentMeasureIndex := next\<rparr>)
           in if isPlaying st2 = isPlaying st \<and> currentMeasureIndex st2 = currentMeasureIndex st
              then Inr st2
              else rerun_effect now st2))"

text \<open>The updaters of the two tempo buttons, and a sequence of presses.\<close>

definition tempo_minus :: "real \<Rightarrow> real" where
  "tempo_minus t = max 40 (t - 5)"

definition tempo_plus :: "real \<Rightarrow> real" where
  "tempo_plus t = min 240 (t + 5)"

datatype tempo_button = Minus | Plus

fun press :: "real \<Rightarrow> tempo_button \<Rightarrow> real" where
  "press t Minus = tempo_minus t"
| "press t Plus = tempo_plus t"

section \<open>Vocal playback adapter: \<open>AudioEngine.playVocalBuffer\<close>\<close>

text \<open>
  \<open>atob\<close> is the platform's function, modelled after the forgiving-base64 decoding of
  the HTML standard: ASCII whitespace is removed, one or two trailing \<open>=\<close> are dropped
  when the length is a multiple of four, a length of 1 modulo 4 or a character outside
  the alphabet fails (\<open>None\<close>, the InvalidCharacterError that \<open>atob\<close> throws), and each
  character contributes six bits.
\<close>

definition is_ascii_whitespace :: "char \<Rightarrow> bool" where
  "is_ascii_whitespace c = (of_char c \<in> {9, 10, 12, 13, 32 :: nat})"

definition b64_value :: "char \<Rightarrow> nat option" where
  "b64_value c =
     (let n = (of_char c :: nat) in
      if 65 \<le> n \<and> n \<le> 90 then Some (n - 65)
      else if 97 \<le> n \<and> n \<le> 122 then Some (n - 71)
      else if 48 \<le> n \<and> n \<le> 57 then Some (n + 4)
      else if n = 43 then Some 62
      else if n = 47 then Some 63
      else None)"

definition strip_padding :: "string \<Rightarrow> string" where
  "strip_padding s =
     (if length s mod 4 = 0 \<and> s \<noteq> [] \<and> last s = CHR ''=''
      then (if butlast s \<noteq> [] \<and> last (butlast s) = CHR ''='' then butlast (butlast s)
            else butlast s)
      else s)"

fun b64_bytes :: "nat list \<Rightarrow> nat list" where
  "b64_bytes (a # b # c # d # rest) =
     (let n = ((a * 64 + b) * 64 + c) * 64 + d
      in n div 65536 # (n div 256) mod 256 # n mod 256 # b64_bytes rest)"
| "b64_bytes [a, b, c] = (let n = ((a * 64 + b) * 64 + c) div 4 in [n div 256, n mod 256])"
| "b64_bytes [a, b] = [(a * 64 + b) div 16]"
| "b64_bytes _ = []"

definition atob :: "string \<Rightarrow> string option" where
  "atob s =
     (let data = strip_padding (filter (\<lambda>c. \<not> is_ascii_whitespace c) s) in
      if length data mod 4 = 1 then None
      else if list_ex (\<lambda>c. b64_value c = None) data then None
      else Some (map char_of (b64_bytes (map (\<lambda>c. the (b64_value c)) data))))"

text \<open>
  What one call of the async method leaves behind: how its promise settles, the
  warnings logged, and the buffer sources started with their start times.
\<close>

datatype promise = Fulfilled | Rejected error

record 'b vocal_result =
  settled :: promise
  warnings :: "string list"
  started :: "('b \<times> real) list"

text \<open>
  \<open>decodeAudioData\<close> is the platform's codec, a parameter: \<open>None\<close> when its promise
  rejects. The call of \<open>atob\<close> and the copy into \<open>bytes\<close> come before the \<open>try\<close> block, so
  what \<open>atob\<close> throws rejects the method's promise; only the decoder's failure reaches
  the \<open>catch\<close>.
\<close>

definition playVocalBuffer ::
  "(nat list \<Rightarrow> 'b option) \<Rightarrow> string \<Rightarrow> real \<Rightarrow> 'b vocal_result" where
  "playVocalBuffer decodeAudioData base64 startTime =
     (case atob base64 of
        None \<Rightarrow> \<lparr>settled = Rejected InvalidCharacterError, warnings = [], started = []\<rparr>
      | Some binaryString \<Rightarrow>
          (let bytes = map of_char binaryString in
           case decodeAudioData bytes of
             Some audioBuffer \<Rightarrow>
               \<lparr>settled = Fulfilled, warnings = [], started = [(audioBuffer, startTime)]\<rparr>
           | None \<Rightarrow>
               \<lparr>settled = Fulfilled, warnings = [''Could not decode vocal buffer.''],
                started = []\<rparr>))"

section \<open>The scenarios of the specification\<close>

definition example_melody :: "Note list" where
  "example_melody =
     [\<lparr>pitch = ''C4'', duration = 1, lyrics = None\<rparr>,
      \<lparr>pitch = ''E4'', duration = 1, lyrics = None\<rparr>,
      \<lparr>pitch = ''G4'', duration = 2, lyrics = None\<rparr>]"

definition example_score :: ScoreData where
  "example_score =
     \<lparr>title = ''example'', scoreTempo = 120, timeSignature = ''4/4'', keySignature = ''C'',
      measures = [\<lparr>chords = [''C'', ''G7''], melody = example_melody,
                   drumGroove = Some ''swing''\<rparr>]\<rparr>"

text \<open>
  A score of four measures, each one whole note, played on the piano at tempo 90, and
  the states of a run over it: stopped; measure 1 armed by the play button at audio
  time 0; measure 2 armed by the first timer; measure 2 after the tempo has been set to
  120; and measure 4, the last one, armed.
\<close>

definition whole_note_measure :: Measure where
  "whole_note_measure =
     \<lparr>chords = [], melody = [\<lparr>pitch = ''C4'', duration = 4, lyrics = None\<rparr>],
      drumGroove = None\<rparr>"

definition four_measure_score :: ScoreData where
  "four_measure_score =
     \<lparr>title = ''four'', scoreTempo = 90, timeSignature = ''4/4'', keySignature = ''C'',
      measures = [whole_note_measure, whole_note_measure, whole_note_measure,
                  whole_note_measure]\<rparr>"

definition stopped_state :: app_state where
  "stopped_state =
     \<lparr>score = Some four_measure_score, isPlaying = False, tempo = 90,
      selectedInstruments = {PIANO}, currentMeasureIndex = 0, vocalAudioMap = Map.empty,
      playbackTimer = None, measureStartTime = 0, calls = []\<rparr>"

definition armed_measure1 :: app_state where
  "armed_measure1 =
     \<lparr>score = Some four_measure_score, isPlaying = True, tempo = 90,
      selectedInstruments = {PIANO}, currentMeasureIndex = 0, vocalAudioMap = Map.empty,
      playbackTimer = Some (Timer (8000 / 3) (8 / 3) 4), measureStartTime = 1 / 10,
      calls = [PlayNote ''C4'' (8 / 3) PIANO (1 / 10)]\<rparr>"

definition armed_measure2 :: app_state where
  "armed_measure2 =
     \<lparr>score = Some four_measure_score, isPlaying = True, tempo = 90,
      selectedInstruments = {PIANO}, currentMeasureIndex = 1, vocalAudioMap = Map.empty,
      playbackTimer = Some (Timer (8000 / 3) (8 / 3) 4), measureStartTime = 83 / 30,
      calls = [PlayNote ''C4'' (8 / 3) PIANO (1 / 10),
               PlayNote ''C4'' (8 / 3) PIANO (83 / 30)]\<rparr>"

definition rearmed_measure2 :: app_state where
  "rearmed_measure2 =
     \<lparr>score = Some four_measure_score, isPlaying = True, tempo = 120,
      selectedInstruments = {PIANO}, currentMeasureIndex = 1, vocalAudioMap = Map.empty,
      playbackTimer = Some (Timer 2000 2 4), measureStartTime = 83 / 30,
      calls = [PlayNote ''C4'' (8 / 3) PIANO (1 / 10),
               PlayNote ''C4'' (8 / 3) PIANO (83 / 30),
               PlayNote ''C4'' 2 PIANO (83 / 30)]\<rparr>"

definition armed_measure4 :: app_state where
  "armed_measure4 =
     \<lparr>score = Some four_measure_score, isPlaying = True, tempo = 90,
      selectedInstruments = {PIANO}, currentMeasureIndex = 3, vocalAudioMap = Map.empty,
      playbackTimer = Some (Timer (8000 / 3) (8 / 3) 4), measureStartTime = 81 / 10,
      calls = [PlayNote ''C4'' (8 / 3) PIANO (1 / 10),
               PlayNote ''C4'' (8 / 3) PIANO (83 / 30),
               PlayNote ''C4'' (8 / 3) PIANO (163 / 30),
               PlayNote ''C4'' (8 / 3) PIANO (81 / 10)]\<rparr>"

text \<open>
  A measure whose first melody note is C flat, a name the pitch syntax admits and the
  resolver's table does not have.
\<close>

definition flat_measure :: Measure where
  "flat_measure =
     \<lparr>chords = [''C'', ''G7''],
      melody = [\<lparr>pitch = ''Cb4'', duration = 2, lyrics = None\<rparr>,
                \<lparr>pitch = ''D4'', duration = 2, lyrics = None\<rparr>],
      drumGroove = Some ''standard 4/4 rock''\<rparr>"

definition flat_score :: ScoreData where
  "flat_score =
     \<lparr>title = ''flat'', scoreTempo = 120, timeSignature = ''4/4'', keySignature = ''Gb'',
      measures = [flat_measure]\<rparr>"

section \<open>Properties of the pitch resolver\<close>

subsection \<open>The regular expression finds exactly the pitch tokens\<close>

lemma match_here_token:
  "match_here s = Some m \<Longrightarrow> \<exists>w post. s = w @ post \<and> pitch_token w"
proof (induction s rule: match_here.induct)
  case (1 c a d rest)
  show ?case
  proof (cases "is_letter c \<and> is_accidental a \<and> is_digit d")
    case True
    then have "pitch_token [c, a, d]" by (simp add: pitch_token_def)
    moreover have "c # a # d # rest = [c, a, d] @ rest" by simp
    ultimately show ?thesis by blast
  next
    case False
    with 1 have "is_letter c \<and> is_digit a" by (simp split: if_splits)
    then have "pitch_token [c, a]" by (simp add: pitch_token_def)
    moreover have "c # a # d # rest = [c, a] @ (d # rest)" by simp
    ultimately show ?thesis by blast
  qed
next
  case (2 c d)
  then have "pitch_token [c, d]" by (simp add: pitch_token_def split: if_splits)
  moreover have "[c, d] = [c, d] @ []" by simp
  ultimately show ?case by blast
qed simp_all

lemma pitch_match_contains:
  "pitch_match s = Some m \<Longrightarrow> contains_pitch s"
proof (induction s)
  case Nil
  then show ?case by simp
next
  case (Cons c cs)
  show ?case
  proof (cases "match_here (c # cs)")
    case None
    with Cons have "contains_pitch cs" by simp
    then obtain pre w post where "cs = pre @ w @ post" "pitch_token w"
      by (auto simp: contains_pitch_def)
    then have "c # cs = (c # pre) @ w @ post \<and> pitch_token w" by simp
    then show ?thesis unfolding contains_pitch_def by blast
  next
    case (Some a)
    from match_here_token [OF Some] obtain w post
      where "c # cs = w @ post" "pitch_token w" by blast
    then have "c # cs = [] @ w @ post \<and> pitch_token w" by simp
    then show ?thesis unfolding contains_pitch_def by blast
  qed
qed

lemma digit_not_accidental: "is_digit a \<Longrightarrow> \<not> is_accidental a"
  by (auto simp: is_digit_def is_accidental_def)

lemma token_match_here:
  assumes "pitch_token w"
  shows "match_here (w @ post) \<noteq> None"
proof -
  from assms consider
    (two) l d where "w = [l, d]" "is_letter l" "is_digit d"
  | (three) l a d where "w = [l, a, d]" "is_letter l" "is_accidental a" "is_digit d"
    by (auto simp: pitch_token_def)
  then show ?thesis
  proof cases
    case two
    then show ?thesis by (cases post) simp_all
  next
    case three
    then show ?thesis by simp
  qed
qed

lemma contains_pitch_match:
  "pitch_token w \<Longrightarrow> pitch_match (pre @ w @ post) \<noteq> None"
proof (induction pre)
  case Nil
  from Nil obtain x xs where w: "w = x # xs" by (cases w) (auto simp: pitch_token_def)
  from token_match_here [OF Nil, of post] show ?case
    by (auto simp: w)
next
  case (Cons c pre)
  then show ?case by (simp split: option.splits)
qed

lemma pitch_match_iff: "pitch_match s = None \<longleftrightarrow> \<not> contains_pitch s"
proof
  assume n: "pitch_match s = None"
  show "\<not> contains_pitch s"
  proof
    assume "contains_pitch s"
    then obtain pre w post where "s = pre @ w @ post" "pitch_token w"
      by (auto simp: contains_pitch_def)
    with contains_pitch_match [of w pre post] n show False by simp
  qed
next
  assume "\<not> contains_pitch s"
  with pitch_match_contains [of s] show "pitch_match s = None"
    by (cases "pitch_match s") auto
qed

subsection \<open>What the resolver computes on a well-formed pitch\<close>

text \<open>
  On a letter, an optional accidental and a digit, the resolver looks the name up in
  its table and raises 2 to \<open>(n + (octave - 4) * 12) / 12\<close>, where \<open>n\<close> is the
  table's entry: the offset counted from C, with nothing subtracted.
\<close>

lemma getFrequency_token:
  assumes "is_letter l" "is_digit d" "acc = [] \<or> (\<exists>a. acc = [a] \<and> is_accidental a)"
  shows "getFrequency (l # acc @ [d]) =
     (case notes_tbl (l # acc) of
        None \<Rightarrow> NaN
      | Some n \<Rightarrow> Num (440 * 2 powr (real_of_int (n + (parseInt_digit d - 4) * 12) / 12)))"
  using assms by (auto simp: getFrequency_def Let_def split: option.splits)

lemma getFrequency_octave_up:
  assumes "is_letter l" "is_digit d" "is_digit d'"
    and "acc = [] \<or> (\<exists>a. acc = [a] \<and> is_accidental a)"
    and "notes_tbl (l # acc) = Some n"
  shows "parseInt_digit d < parseInt_digit d' \<Longrightarrow>
           num_less (getFrequency (l # acc @ [d])) (getFrequency (l # acc @ [d']))"
    and "parseInt_digit d' = parseInt_digit d + 1 \<Longrightarrow>
           getFrequency (l # acc @ [d']) = num_times 2 (getFrequency (l # acc @ [d]))"
proof -
  have f: "getFrequency (l # acc @ [d]) =
      Num (440 * 2 powr (real_of_int (n + (parseInt_digit d - 4) * 12) / 12))"
    and f': "getFrequency (l # acc @ [d']) =
      Num (440 * 2 powr (real_of_int (n + (parseInt_digit d' - 4) * 12) / 12))"
    using assms by (simp_all add: getFrequency_token)
  show "num_less (getFrequency (l # acc @ [d])) (getFrequency (l # acc @ [d']))"
    if "parseInt_digit d < parseInt_digit d'"
    using that by (simp add: f f')
  show "getFrequency (l # acc @ [d']) = num_times 2 (getFrequency (l # acc @ [d]))"
    if "parseInt_digit d' = parseInt_digit d + 1"
  proof -
    have "real_of_int (n + (parseInt_digit d' - 4) * 12) / 12
        = real_of_int (n + (parseInt_digit d - 4) * 12) / 12 + 1"
      using that by (simp add: field_simps)
    then show ?thesis by (simp only: f f' powr_add num_times.simps) simp
  qed
qed

lemmas pitch_eval = getFrequency_def notes_tbl_def parseInt_digit_def is_letter_def
  is_digit_def is_accidental_def

text \<open>
  Claim C1. The spec has the resolver return \<open>440 * 2^(((offset - 9) + (octave - 4) * 12) / 12)\<close>,
  with the offset counted from C, so that \<open>A4\<close> is exactly 440 Hz. The code leaves the
  \<open>- 9\<close> out: \<open>A4\<close> resolves to \<open>440 * 2^(9/12)\<close>, about 740 Hz, and it is \<open>C4\<close> that
  resolves to 440.
\<close>

theorem getFrequency_A4_not_440:
  "getFrequency ''A4'' = Num (440 * 2 powr (9 / 12)) \<and> getFrequency ''A4'' \<noteq> Num 440
   \<and> getFrequency ''C4'' = Num 440"
  by (simp add: pitch_eval)

text \<open>
  Claim C3. A string with no substring of the form letter A to G, optional \<open>#\<close> or
  \<open>b\<close>, digit resolves to exactly 440; the resolver has no failing branch (it is a
  total function into numbers).
\<close>

theorem getFrequency_unparseable: "\<not> contains_pitch s \<Longrightarrow> getFrequency s = Num 440"
  using pitch_match_iff [of s] by (simp add: getFrequency_def)

theorem getFrequency_unparseable_witness:
  "\<not> contains_pitch ''H 4b#'' \<and> getFrequency ''H 4b#'' = Num 440"
proof -
  have pm: "pitch_match ''H 4b#'' = None"
    by (simp add: is_letter_def is_digit_def is_accidental_def)
  have h: "\<not> contains_pitch ''H 4b#''"
    using pm pitch_match_iff [of "''H 4b#''"] by blast
  from h getFrequency_unparseable [OF h] show ?thesis by simp
qed

text \<open>
  Claim C7. The spec has the frequency strictly increase with the octave digit and
  double from one octave to the next, for every valid pitch. The names \<open>Cb\<close>, \<open>Fb\<close>,
  \<open>E#\<close> and \<open>B#\<close> pass the regular expression but are not keys of the table: there
  the resolver returns \<open>NaN\<close> in every octave, which neither increases nor doubles.
  (On the table's seventeen names both hold, by \<open>getFrequency_octave_up\<close>.)
\<close>

theorem getFrequency_Cb_octaves:
  "getFrequency ''Cb4'' = NaN \<and> getFrequency ''Cb5'' = NaN \<and>
   \<not> num_less (getFrequency ''Cb4'') (getFrequency ''Cb5'') \<and>
   \<not> num_eq (getFrequency ''Cb5'') (num_times 2 (getFrequency ''Cb4''))"
  by (simp add: pitch_eval)

section \<open>Properties of the measure arranger\<close>

subsection \<open>Calls that return, calls that throw\<close>

lemma and_then_Inr: "and_then (Inr c) k = (c # fst k, snd k)"
  by (simp add: and_then_def)

lemma and_then_Inl: "and_then (Inl e) k = ([], Some e)"
  by (simp add: and_then_def)

lemma seq_None: "seq (cs, None) k = (cs @ fst k, snd k)"
  by (simp add: seq_def)

lemma seq_Some: "seq (cs, Some e) k = (cs, Some e)"
  by (simp add: seq_def)

lemma playNote_returns:
  "getFrequency p \<noteq> NaN \<Longrightarrow> 0 \<le> t \<Longrightarrow> 0 \<le> t + d \<Longrightarrow>
     playNote p d inst t = Inr (PlayNote p d inst t)"
  by (cases "getFrequency p") (simp_all add: playNote_def)

lemma playNote_NaN: "getFrequency p = NaN \<Longrightarrow> playNote p d inst t = Inl TypeError"
  by (simp add: playNote_def)

lemma playDrum_returns: "0 \<le> t \<Longrightarrow> playDrum v t = Inr (PlayDrum v t)"
  by (simp add: playDrum_def)

subsection \<open>The three loops when no call throws\<close>

text \<open>
  With every melody pitch resolving to a number, durations that are not negative, a
  positive beat and a start time that is not negative, no call throws and each loop
  schedules all of its sounds. A bass root, one character followed by \<open>2\<close>, always
  resolves: a single letter is a key of the table, and anything else falls back to 440.
\<close>

lemma sum_Cons_shift:
  "(\<Sum>j<Suc k. f ((x # xs) ! j)) = f x + (\<Sum>j<k. f (xs ! j) :: real)"
  by (simp add: sum.lessThan_Suc_shift del: sum.lessThan_Suc)

lemma melody_loop_returns:
  assumes "\<forall>n \<in> set ns. getFrequency (pitch n) \<noteq> NaN \<and> 0 \<le> duration n"
    and "0 \<le> b" and "0 \<le> st" and "0 \<le> off"
  shows "melody_loop inst b st off ns =
     (map (\<lambda>k. PlayNote (pitch (ns ! k)) (duration (ns ! k) * b) inst
                (st + (off + (\<Sum>j<k. duration (ns ! j) * b))))
         [0..<length ns], None)"
  using assms
proof (induction ns arbitrary: off)
  case Nil
  show ?case by simp
next
  case (Cons n ns)
  from Cons.prems have n: "getFrequency (pitch n) \<noteq> NaN" "0 \<le> duration n * b"
    by simp_all
  from Cons.prems n have off': "0 \<le> off + duration n * b" by simp
  from Cons.prems have rest: "\<forall>n \<in> set ns. getFrequency (pitch n) \<noteq> NaN \<and> 0 \<le> duration n"
    by simp
  have pn: "playNote (pitch n) (duration n * b) inst (st + off)
      = Inr (PlayNote (pitch n) (duration n * b) inst (st + off))"
    using n Cons.prems by (intro playNote_returns) simp_all
  have "melody_loop inst b st off (n # ns) =
      (PlayNote (pitch n) (duration n * b) inst (st + off)
       # map (\<lambda>k. PlayNote (pitch (ns ! k)) (duration (ns ! k) * b) inst
                (st + ((off + duration n * b) + (\<Sum>j<k. duration (ns ! j) * b))))
         [0..<length ns], None)"
    by (simp add: pn and_then_Inr Cons.IH [OF rest Cons.prems(2,3) off'])
  also have "\<dots> = (map (\<lambda>k. PlayNote (pitch ((n # ns) ! k)) (duration ((n # ns) ! k) * b) inst
                (st + (off + (\<Sum>j<k. duration ((n # ns) ! j) * b))))
         [0..<length (n # ns)], None)"
    by (simp add: map_upt_Suc sum_Cons_shift [where f = "\<lambda>y. duration y * b"] add.assoc
        del: upt_Suc sum.lessThan_Suc)
  finally show ?case .
qed

lemma bass_root_resolves: "getFrequency (charAt0 chord @ ''2'') \<noteq> NaN"
proof (cases chord)
  case Nil
  then show ?thesis
    by (simp add: charAt0_def getFrequency_def)
next
  case (Cons c cs)
  show ?thesis
  proof (cases "is_letter c")
    case True
    then have "notes_tbl [c] \<noteq> None"
      by (auto simp: is_letter_def notes_tbl_def)
    with True show ?thesis
      by (auto simp: Cons charAt0_def getFrequency_def is_digit_def Let_def)
  next
    case False
    then show ?thesis
      by (simp add: Cons charAt0_def getFrequency_def)
  qed
qed

lemma bass_loop_returns:
  assumes "0 \<le> cd" and "0 \<le> st"
  shows "bass_loop cd st i cs =
     (map (\<lambda>k. PlayNote (charAt0 (cs ! k) @ ''2'') cd BASS (st + real (i + k) * cd))
         [0..<length cs], None)"
proof (induction cs arbitrary: i)
  case Nil
  show ?case by simp
next
  case (Cons c cs)
  have "playNote (charAt0 c @ ''2'') cd BASS (st + real i * cd)
      = Inr (PlayNote (charAt0 c @ ''2'') cd BASS (st + real i * cd))"
    using assms by (intro playNote_returns bass_root_resolves) simp_all
  then show ?case
    by (simp add: Cons.IH and_then_Inr map_upt_Suc del: upt_Suc)
qed

lemma drum_loop_returns:
  assumes "0 \<le> b" and "0 \<le> st"
  shows "drum_loop b st =
     ([PlayDrum Hihat (st + 0 * b), PlayDrum Hihat (st + 0 * b + 0.5 * b), PlayDrum Kick (st + 0 * b),
       PlayDrum Hihat (st + 1 * b), PlayDrum Hihat (st + 1 * b + 0.5 * b), PlayDrum Snare (st + 1 * b),
       PlayDrum Hihat (st + 2 * b), PlayDrum Hihat (st + 2 * b + 0.5 * b), PlayDrum Kick (st + 2 * b),
       PlayDrum Hihat (st + 3 * b), PlayDrum Hihat (st + 3 * b + 0.5 * b), PlayDrum Snare (st + 3 * b)],
      None)"
  using assms
  by (simp add: drum_loop_def drum_iter_def playDrum_returns and_then_Inr seq_None)


lemma melody_part_returns:
  assumes "\<forall>n \<in> set (melody m). getFrequency (pitch n) \<noteq> NaN \<and> 0 \<le> duration n"
    and "0 \<le> b" and "0 \<le> st"
  shows "melody_part sel b st m =
     (if PIANO \<in> sel \<or> GUITAR \<in> sel
      then map (\<lambda>k. PlayNote (pitch (melody m ! k)) (duration (melody m ! k) * b)
                       (if PIANO \<in> sel then PIANO else GUITAR)
                       (st + (\<Sum>j<k. duration (melody m ! j) * b)))
               [0..<length (melody m)]
      else [], None)"
  using melody_loop_returns [OF assms(1,2,3), of 0]
  by (simp add: melody_part_def)

lemma bass_part_returns:
  assumes "0 \<le> b" and "0 \<le> st"
  shows "bass_part sel b st m =
     (if BASS \<in> sel \<and> chords m \<noteq> []
      then map (\<lambda>i. PlayNote (take 1 (chords m ! i) @ ''2'') (4 * b / real (length (chords m)))
                       BASS (st + real i * (4 * b / real (length (chords m)))))
               [0..<length (chords m)]
      else [], None)"
  using assms by (simp add: bass_part_def bass_loop_returns charAt0_def)

lemma drums_part_returns:
  assumes "0 \<le> b" and "0 \<le> st"
  shows "drums_part sel b st =
     (if DRUMS \<in> sel
      then [PlayDrum Hihat (st + 0 * b), PlayDrum Hihat (st + 0 * b + 0.5 * b), PlayDrum Kick (st + 0 * b),
            PlayDrum Hihat (st + 1 * b), PlayDrum Hihat (st + 1 * b + 0.5 * b), PlayDrum Snare (st + 1 * b),
            PlayDrum Hihat (st + 2 * b), PlayDrum Hihat (st + 2 * b + 0.5 * b), PlayDrum Kick (st + 2 * b),
            PlayDrum Hihat (st + 3 * b), PlayDrum Hihat (st + 3 * b + 0.5 * b), PlayDrum Snare (st + 3 * b)]
      else [], None)"
  using drum_loop_returns [OF assms] by (simp add: drums_part_def)

lemma vocal_part_returns: "snd (vocal_part sel vm i st) = None"
  by (simp add: vocal_part_def split: option.splits)

lemma vocal_part_calls:
  "filter is_melodic (fst (vocal_part sel vm i st)) = []"
  "filter is_bass (fst (vocal_part sel vm i st)) = []"
  "filter (is_drum v) (fst (vocal_part sel vm i st)) = []"
  by (simp_all add: vocal_part_def split: option.splits)

lemma playMeasure_returns:
  assumes "index < length (measures sc)" and "0 < bpm" and "0 \<le> st"
    and "\<forall>n \<in> set (melody (measures sc ! index)). getFrequency (pitch n) \<noteq> NaN \<and> 0 \<le> duration n"
  shows "playMeasure (Some sc) bpm sel vm index st =
     (fst (melody_part sel (60 / bpm) st (measures sc ! index))
      @ fst (bass_part sel (60 / bpm) st (measures sc ! index))
      @ fst (drums_part sel (60 / bpm) st)
      @ fst (vocal_part sel vm index st), None)"
proof -
  have b: "0 \<le> 60 / bpm" using assms(2) by simp
  obtain vs where v: "vocal_part sel vm index st = (vs, None)"
    using vocal_part_returns [of sel vm index st] by (cases "vocal_part sel vm index st") simp
  show ?thesis
    using assms(1)
    by (simp add: playMeasure_def Let_def melody_part_returns [OF assms(4) b assms(3)]
        bass_part_returns [OF b assms(3)] drums_part_returns [OF b assms(3)] v seq_None)
qed


subsection \<open>The tracks of a measure whose pitches all resolve\<close>

text \<open>
  Under the same conditions \<open>playMeasure\<close> returns, and its tracks are as the
  specification describes them: one tone per melody note, back to back, the k-th at the
  sum of the durations before it times \<open>60 / tempo\<close>; one bass tone per chord in equal
  slots that add up to \<open>4 * (60 / tempo)\<close>; eight hi-hats, two kicks and two snares
  whatever \<open>drumGroove\<close> holds.
\<close>

lemma melody_schedule_when_resolved:
  assumes "PIANO \<in> sel \<or> GUITAR \<in> sel" and "index < length (measures sc)"
    and "0 < bpm" and "0 \<le> st"
    and "\<forall>n \<in> set (melody (measures sc ! index)). getFrequency (pitch n) \<noteq> NaN \<and> 0 \<le> duration n"
  shows "snd (playMeasure (Some sc) bpm sel vm index st) = None"
    and "filter is_melodic (fst (playMeasure (Some sc) bpm sel vm index st)) =
       map (\<lambda>k. PlayNote (pitch (melody (measures sc ! index) ! k))
                  (duration (melody (measures sc ! index) ! k) * (60 / bpm))
                  (if PIANO \<in> sel then PIANO else GUITAR)
                  (st + (\<Sum>j<k. duration (melody (measures sc ! index) ! j)) * (60 / bpm)))
           [0..<length (melody (measures sc ! index))]"
    and "\<forall>k. Suc k < length (melody (measures sc ! index)) \<longrightarrow>
        start_of (filter is_melodic (fst (playMeasure (Some sc) bpm sel vm index st)) ! k)
        + note_duration (filter is_melodic (fst (playMeasure (Some sc) bpm sel vm index st)) ! k)
          = start_of (filter is_melodic (fst (playMeasure (Some sc) bpm sel vm index st)) ! Suc k)"
proof -
  let ?run = "playMeasure (Some sc) bpm sel vm index st"
  let ?ns = "melody (measures sc ! index)"
  have b: "0 \<le> 60 / bpm" using assms(3) by simp
  note run = playMeasure_returns [OF assms(2,3,4,5), of sel vm]
  show "snd ?run = None" by (simp add: run)
  show eq: "filter is_melodic (fst ?run) =
       map (\<lambda>k. PlayNote (pitch (?ns ! k)) (duration (?ns ! k) * (60 / bpm))
                  (if PIANO \<in> sel then PIANO else GUITAR)
                  (st + (\<Sum>j<k. duration (?ns ! j)) * (60 / bpm)))
           [0..<length ?ns]"
    using assms(1)
    unfolding run sum_distrib_right
    by (auto simp: melody_part_returns [OF assms(5) b assms(4)] bass_part_returns [OF b assms(4)]
        drums_part_returns [OF b assms(4)] vocal_part_calls filter_map comp_def)
  show "\<forall>k. Suc k < length ?ns \<longrightarrow>
        start_of (filter is_melodic (fst ?run) ! k) + note_duration (filter is_melodic (fst ?run) ! k)
          = start_of (filter is_melodic (fst ?run) ! Suc k)"
    by (simp add: eq algebra_simps add_divide_distrib)
qed

lemma sum_list_const_map: "sum_list (map (\<lambda>k. c) xs) = real (length xs) * (c :: real)"
  by (induction xs) (simp_all add: algebra_simps)

lemma bass_slots_when_resolved:
  assumes "BASS \<in> sel" and "index < length (measures sc)"
    and "chords (measures sc ! index) \<noteq> []" and "0 < bpm" and "0 \<le> st"
    and "\<forall>n \<in> set (melody (measures sc ! index)). getFrequency (pitch n) \<noteq> NaN \<and> 0 \<le> duration n"
  shows "snd (playMeasure (Some sc) bpm sel vm index st) = None"
    and "filter is_bass (fst (playMeasure (Some sc) bpm sel vm index st)) =
       map (\<lambda>i. PlayNote (take 1 (chords (measures sc ! index) ! i) @ ''2'')
                  (4 * (60 / bpm) / real (length (chords (measures sc ! index))))
                  BASS
                  (st + real i * (4 * (60 / bpm) / real (length (chords (measures sc ! index))))))
           [0..<length (chords (measures sc ! index))]"
    and "sum_list (map note_duration
           (filter is_bass (fst (playMeasure (Some sc) bpm sel vm index st)))) = 4 * (60 / bpm)"
proof -
  let ?run = "playMeasure (Some sc) bpm sel vm index st"
  let ?ch = "chords (measures sc ! index)"
  let ?slot = "4 * (60 / bpm) / real (length ?ch)"
  let ?ev = "\<lambda>i. PlayNote (take 1 (?ch ! i) @ ''2'') ?slot BASS (st + real i * ?slot)"
  have b: "0 \<le> 60 / bpm" using assms(4) by simp
  note run = playMeasure_returns [OF assms(2,4,5,6), of sel vm]
  show "snd ?run = None" by (simp add: run)
  show eq: "filter is_bass (fst ?run) = map ?ev [0..<length ?ch]"
    using assms(1,3)
    unfolding run
    by (auto simp: melody_part_returns [OF assms(6) b assms(5)] bass_part_returns [OF b assms(5)]
        drums_part_returns [OF b assms(5)] vocal_part_calls filter_map comp_def)
  have "map note_duration (map ?ev [0..<length ?ch]) = map (\<lambda>i. ?slot) [0..<length ?ch]"
    by simp
  then have "sum_list (map note_duration (filter is_bass (fst ?run))) = real (length ?ch) * ?slot"
    by (simp only: eq sum_list_const_map length_map length_upt) simp
  also have "\<dots> = 4 * (60 / bpm)"
    using assms(3) by simp
  finally show "sum_list (map note_duration (filter is_bass (fst ?run))) = 4 * (60 / bpm)" .
qed

lemma drum_pattern_when_resolved:
  assumes "DRUMS \<in> sel" and "index < length (measures sc)" and "0 < bpm" and "0 \<le> st"
    and "\<forall>n \<in> set (melody (measures sc ! index)). getFrequency (pitch n) \<noteq> NaN \<and> 0 \<le> duration n"
  shows "snd (playMeasure (Some sc) bpm sel vm index st) = None"
    and "filter (is_drum Hihat) (fst (playMeasure (Some sc) bpm sel vm index st)) =
       map (\<lambda>k. PlayDrum Hihat (st + real k * 0.5 * (60 / bpm))) [0, 1, 2, 3, 4, 5, 6, 7]"
    and "filter (is_drum Kick) (fst (playMeasure (Some sc) bpm sel vm index st)) =
       [PlayDrum Kick (st + 0), PlayDrum Kick (st + 2 * (60 / bpm))]"
    and "filter (is_drum Snare) (fst (playMeasure (Some sc) bpm sel vm index st)) =
       [PlayDrum Snare (st + 1 * (60 / bpm)), PlayDrum Snare (st + 3 * (60 / bpm))]"
    and "playMeasure
           (Some (sc\<lparr>measures := (measures sc)[index := (measures sc ! index)\<lparr>drumGroove := g\<rparr>]\<rparr>))
           bpm sel vm index st
         = playMeasure (Some sc) bpm sel vm index st"
proof -
  let ?run = "playMeasure (Some sc) bpm sel vm index st"
  have b: "0 \<le> 60 / bpm" using assms(3) by simp
  note run = playMeasure_returns [OF assms(2,3,4,5), of sel vm]
  note parts = melody_part_returns [OF assms(5) b assms(4)] bass_part_returns [OF b assms(4)]
    drums_part_returns [OF b assms(4)] vocal_part_calls
  show "snd ?run = None" by (simp add: run)
  show "filter (is_drum Hihat) (fst ?run) =
       map (\<lambda>k. PlayDrum Hihat (st + real k * 0.5 * (60 / bpm))) [0, 1, 2, 3, 4, 5, 6, 7]"
    using assms(1) unfolding run by (auto simp: parts filter_map comp_def)
  show "filter (is_drum Kick) (fst ?run) =
       [PlayDrum Kick (st + 0), PlayDrum Kick (st + 2 * (60 / bpm))]"
    using assms(1) unfolding run by (auto simp: parts filter_map comp_def)
  show "filter (is_drum Snare) (fst ?run) =
       [PlayDrum Snare (st + 1 * (60 / bpm)), PlayDrum Snare (st + 3 * (60 / bpm))]"
    using assms(1) unfolding run by (auto simp: parts filter_map comp_def)
  show "playMeasure
           (Some (sc\<lparr>measures := (measures sc)[index := (measures sc ! index)\<lparr>drumGroove := g\<rparr>]\<rparr>))
           bpm sel vm index st = ?run"
    using assms(2) by (simp add: playMeasure_def Let_def melody_part_def bass_part_def)
qed

text \<open>
  The scenario of the specification: at tempo 120 the melody C4 (1 beat), E4 (1 beat),
  G4 (2 beats) on the piano gives three tones at 0 s, 0.5 s and 1 s lasting 0.5 s, 0.5 s
  and 1 s.
\<close>

lemmas arranger_eval = playMeasure_def melody_part_def bass_part_def drums_part_def
  vocal_part_def drum_loop_def drum_iter_def playNote_def playDrum_def and_then_def seq_def
  charAt0_def Let_def

lemma playMeasure_scenario_tempo_120:
  "playMeasure (Some example_score) 120 {PIANO} Map.empty 0 0 =
     ([PlayNote ''C4'' (1 / 2) PIANO 0, PlayNote ''E4'' (1 / 2) PIANO (1 / 2),
       PlayNote ''G4'' 1 PIANO 1], None)"
  by (simp add: example_score_def example_melody_def arranger_eval pitch_eval)

subsection \<open>A measure with a pitch that does not resolve\<close>

text \<open>
  Claim C4. The spec has one tone scheduled per melody note, for every measure. For
  the melody \<open>Cb4, D4\<close> on the piano the resolver returns \<open>NaN\<close> for the first note,
  \<open>playNote\<close> throws on it, and the loop ends with no tone scheduled for either of the
  two notes.
\<close>

theorem playMeasure_melody_unresolved_pitch:
  "getFrequency ''Cb4'' = NaN \<and> length (melody flat_measure) = 2 \<and>
   playMeasure (Some flat_score) 120 {PIANO} Map.empty 0 (1 / 10) = ([], Some TypeError)"
  by (simp add: flat_score_def flat_measure_def arranger_eval pitch_eval)

text \<open>
  Claim C5. The spec has \<open>N\<close> bass tones emitted whenever bass is selected and the
  measure has \<open>N > 0\<close> chords. With the piano selected too, the exception thrown in the
  melody loop for \<open>Cb4\<close> leaves \<open>playMeasure\<close> before the bass block: none of the two
  bass tones is scheduled. (With bass alone the same measure gets both.)
\<close>

theorem playMeasure_bass_unresolved_pitch:
  "length (chords flat_measure) = 2 \<and>
   playMeasure (Some flat_score) 120 {PIANO, BASS} Map.empty 0 (1 / 10) = ([], Some TypeError) \<and>
   playMeasure (Some flat_score) 120 {BASS} Map.empty 0 (1 / 10)
     = ([PlayNote ''C2'' 1 BASS (1 / 10), PlayNote ''G2'' 1 BASS (11 / 10)], None)"
  by (simp add: flat_score_def flat_measure_def arranger_eval pitch_eval)

text \<open>
  Claim C6. The spec has eight hi-hats, two kicks and two snares emitted whenever
  drums are selected. With the selection the application starts with, piano and drums,
  the exception thrown in the melody loop for \<open>Cb4\<close> leaves \<open>playMeasure\<close> before the
  drum loop: no drum hit is scheduled. (With drums alone the same measure gets all
  twelve.)
\<close>

theorem playMeasure_drums_unresolved_pitch:
  "playMeasure (Some flat_score) 120 {PIANO, DRUMS} Map.empty 0 (1 / 10) = ([], Some TypeError) \<and>
   length (fst (playMeasure (Some flat_score) 120 {DRUMS} Map.empty 0 (1 / 10))) = 12"
  by (simp add: flat_score_def flat_measure_def arranger_eval pitch_eval)

section \<open>Properties of the performance scheduler\<close>

lemmas scenario_defs = whole_note_measure_def four_measure_score_def stopped_state_def
  armed_measure1_def armed_measure2_def rearmed_measure2_def armed_measure4_def

lemmas scheduler_defs = handlePlayToggle_def timerFire_def setTempo_def rerun_effect_def
  scheduleNext_def cleanup_def

text \<open>
  Claim C2. The spec has a tempo change leave the armed measure's scheduled events and
  its advance timer as they were. On the run below, play is pressed on the four-measure
  score at tempo 90, the first timer fires and arms measure 2 with a timer of 8/3 s;
  the tempo is then set to 120. \<open>tempo\<close> is a dependency of the effect, so the effect
  is cleaned up and runs again for the same index: the timer of 8/3 s gives way to one
  of 2 s, and the note of measure 2 is scheduled a second time, at the same anchor,
  with the duration of tempo 120, on top of the one scheduled before.
\<close>

theorem setTempo_rearms_armed_measure:
  "handlePlayToggle 0 stopped_state = Inr armed_measure1 \<and>
   timerFire 3 armed_measure1 = Inr armed_measure2 \<and>
   setTempo 4 120 armed_measure2 = Inr rearmed_measure2 \<and>
   currentMeasureIndex rearmed_measure2 = currentMeasureIndex armed_measure2 \<and>
   measureStartTime rearmed_measure2 = measureStartTime armed_measure2 \<and>
   playbackTimer armed_measure2 = Some (Timer (8000 / 3) (8 / 3) 4) \<and>
   playbackTimer rearmed_measure2 = Some (Timer 2000 2 4) \<and>
   calls rearmed_measure2 = calls armed_measure2 @ [PlayNote ''C4'' 2 PIANO (83 / 30)]"
  by (simp add: scenario_defs scheduler_defs arranger_eval pitch_eval)

text \<open>
  Claim C8. When the timer fires while the current index is the last one of the score
  (\<open>M - 1\<close> of \<open>M\<close> measures), playback stops: \<open>isPlaying\<close> becomes false, the index is
  reset to 0, no new timer is armed and nothing more is scheduled; the anchor has moved
  on by the measure's duration. The witness advances from index 3 of four measures.
\<close>

theorem timerFire_last_measure_stops:
  assumes "score st = Some sc" and "isPlaying st"
    and "playbackTimer st = Some (Timer ms d (length (measures sc)))"
    and "Suc (currentMeasureIndex st) = length (measures sc)"
  shows "timerFire now st =
           Inr (st\<lparr>measureStartTime := measureStartTime st + d, playbackTimer := None,
                   isPlaying := False, currentMeasureIndex := 0\<rparr>)"
  using assms
  by (simp add: timerFire_def rerun_effect_def scheduleNext_def cleanup_def Let_def)

theorem timerFire_last_measure_stops_witness:
  "score armed_measure4 = Some four_measure_score \<and> isPlaying armed_measure4 \<and>
   playbackTimer armed_measure4
     = Some (Timer (8000 / 3) (8 / 3) (length (measures four_measure_score))) \<and>
   Suc (currentMeasureIndex armed_measure4) = length (measures four_measure_score) \<and>
   timerFire 11 armed_measure4 =
     Inr \<lparr>score = Some four_measure_score, isPlaying = False, tempo = 90,
          selectedInstruments = {PIANO}, currentMeasureIndex = 0, vocalAudioMap = Map.empty,
          playbackTimer = None, measureStartTime = 323 / 30,
          calls = calls armed_measure4\<rparr>"
  using timerFire_last_measure_stops
    [of armed_measure4 four_measure_score "8000 / 3" "8 / 3" 11]
  by (simp add: scenario_defs)

text \<open>
  Claim C10. The minus button sets the tempo to \<open>max 40 (tempo - 5)\<close> and the plus
  button to \<open>min 240 (tempo + 5)\<close>; from a tempo in [40, 240], any sequence of presses
  keeps the tempo in [40, 240].
\<close>

theorem tempo_buttons_clamped:
  assumes "40 \<le> t" and "t \<le> 240"
  shows "press t Minus = max 40 (t - 5) \<and> press t Plus = min 240 (t + 5) \<and>
         40 \<le> foldl press t bs \<and> foldl press t bs \<le> 240"
proof -
  have step: "40 \<le> press u b \<and> press u b \<le> 240" if "40 \<le> u" "u \<le> 240" for u b
    using that by (cases b) (auto simp: tempo_minus_def tempo_plus_def)
  have "40 \<le> foldl press t bs \<and> foldl press t bs \<le> 240"
    using assms
  proof (induction bs arbitrary: t)
    case Nil
    then show ?case by simp
  next
    case (Cons b bs)
    from step [OF Cons.prems, of b] Cons.IH [of "press t b"] show ?case by simp
  qed
  then show ?thesis by (simp add: tempo_minus_def tempo_plus_def)
qed

theorem tempo_buttons_clamped_witness:
  "(40::real) \<le> 42 \<and> (42::real) \<le> 240 \<and>
   press 42 Minus = 40 \<and> press 238 Plus = 240 \<and>
   foldl press 42 [Minus, Minus, Plus] = 45 \<and>
   40 \<le> foldl press 42 [Minus, Minus, Plus] \<and> foldl press 42 [Minus, Minus, Plus] \<le> 240"
  using tempo_buttons_clamped [of 42 "[Minus, Minus, Plus]"]
  by (simp add: tempo_minus_def tempo_plus_def)

section \<open>Properties of the vocal playback adapter\<close>

text \<open>
  When the payload is base64, a failure of the decoder is caught: the promise is
  fulfilled, one warning is logged and nothing is started.
\<close>

lemma playVocalBuffer_decoder_failure:
  "atob payload = Some binaryString \<Longrightarrow> dec (map of_char binaryString) = None \<Longrightarrow>
     playVocalBuffer dec payload t =
       \<lparr>settled = Fulfilled, warnings = [''Could not decode vocal buffer.''], started = []\<rparr>"
  by (simp add: playVocalBuffer_def)

text \<open>
  Claim C9. The spec has every decoding failure swallowed with a logged warning,
  payloads that are not valid base64 included. For such a payload \<open>atob\<close> throws before
  the \<open>try\<close> block is entered: the method's promise is rejected with the
  InvalidCharacterError and no warning is logged.
\<close>

theorem playVocalBuffer_invalid_base64:
  "atob ''@@@@'' = None \<and>
   playVocalBuffer dec ''@@@@'' t =
     \<lparr>settled = Rejected InvalidCharacterError, warnings = [], started = []\<rparr>"
  by (simp add: playVocalBuffer_def atob_def strip_padding_def is_ascii_whitespace_def
      b64_value_def)

end
